theory Spec2Isabelle
  imports Main
begin

section \<open>Python values used by Main.py\<close>

text \<open>
  Python strings are modelled as HOL strings whose characters are read as the code points
  U+0000 .. U+00FF, so \<open>CHR 0xB2\<close> is the superscript two. The predicates below are
  Python's own classifications restricted to that range. Python integers are \<open>int\<close>;
  the conversions between integers and decimal strings refuse more than 4300 digits, the
  interpreter's default for \<open>sys.int_max_str_digits\<close>, which Main.py never changes.
\<close>

datatype py_error =
    ValueError
  | IndexError
  | ZeroDivisionError
  | TypeError
  | AttributeError
  | OverflowError
  | OSError

text \<open>\<open>str.isspace\<close> of one character.\<close>

definition py_isspace :: "char \<Rightarrow> bool" where
  "py_isspace c = (of_char c \<in> {9, 10, 11, 12, 13, 28, 29, 30, 31, 32, 133, 160 :: nat})"

text \<open>The decimal digits (category Nd): what \<open>\d\<close> matches and \<open>int()\<close> reads.\<close>

definition py_isdecimal :: "char \<Rightarrow> bool" where
  "py_isdecimal c = (48 \<le> (of_char c :: nat) \<and> (of_char c :: nat) \<le> 57)"

text \<open>
  The characters \<open>str.isdigit\<close> accepts: the decimal digits and the superscript digits
  U+00B2, U+00B3 and U+00B9, which \<open>int()\<close> rejects.
\<close>

definition py_isdigit_char :: "char \<Rightarrow> bool" where
  "py_isdigit_char c = (py_isdecimal c \<or> of_char c \<in> {178, 179, 185 :: nat})"

definition py_isdigit :: "string \<Rightarrow> bool" where
  "py_isdigit s = (s \<noteq> [] \<and> list_all py_isdigit_char s)"

definition py_strip :: "string \<Rightarrow> string" where
  "py_strip s = rev (dropWhile py_isspace (rev (dropWhile py_isspace s)))"

definition py_lower_char :: "char \<Rightarrow> char" where
  "py_lower_char c =
     (let n = (of_char c :: nat)
      in if (65 \<le> n \<and> n \<le> 90) \<or> (192 \<le> n \<and> n \<le> 222 \<and> n \<noteq> 215)
         then char_of (n + 32) else c)"

definition py_lower :: "string \<Rightarrow> string" where
  "py_lower s = map py_lower_char s"

definition py_startswith :: "string \<Rightarrow> string \<Rightarrow> bool" where
  "py_startswith s p = (take (length p) s = p)"

text \<open>\<open>s.split()\<close>: the maximal runs of characters that are not whitespace.\<close>

fun split_from :: "string \<Rightarrow> string \<Rightarrow> string list" where
  "split_from cur [] = (if cur = [] then [] else [cur])"
| "split_from cur (c # cs) =
     (if py_isspace c then (if cur = [] then split_from [] cs else cur # split_from [] cs)
      else split_from (cur @ [c]) cs)"

definition py_split :: "string \<Rightarrow> string list" where
  "py_split s = split_from [] s"

text \<open>\<open>s.split(sep)\<close> for a separator of one character: never an empty list.\<close>

fun split_sep_from :: "char \<Rightarrow> string \<Rightarrow> string \<Rightarrow> string list" where
  "split_sep_from sep cur [] = [cur]"
| "split_sep_from sep cur (c # cs) =
     (if c = sep then cur # split_sep_from sep [] cs else split_sep_from sep (cur @ [c]) cs)"

definition py_split_sep :: "char \<Rightarrow> string \<Rightarrow> string list" where
  "py_split_sep sep s = split_sep_from sep [] s"

text \<open>
  \<open>s.splitlines()\<close>: a line ends at LF, CR, CR LF, VT, FF, FS, GS, RS or NEL; the
  boundaries are removed and a final boundary opens no further line.
\<close>

definition py_linebreak :: "char \<Rightarrow> bool" where
  "py_linebreak c = (of_char c \<in> {10, 11, 12, 13, 28, 29, 30, 133 :: nat})"

fun splitlines_from :: "string \<Rightarrow> string \<Rightarrow> string list" where
  "splitlines_from cur [] = (if cur = [] then [] else [cur])"
| "splitlines_from cur [c] =
     (if py_linebreak c then [cur] else [cur @ [c]])"
| "splitlines_from cur (c # d # cs) =
     (if c = CHR 0x0D \<and> d = CHR 0x0A then cur # splitlines_from [] cs
      else if py_linebreak c then cur # splitlines_from [] (d # cs)
      else splitlines_from (cur @ [c]) (d # cs))"

definition py_splitlines :: "string \<Rightarrow> string list" where
  "py_splitlines s = splitlines_from [] s"

text \<open>Indexing a list: \<open>xs[i]\<close> for \<open>i \<ge> 0\<close>, with Python's IndexError.\<close>

definition py_index :: "'a list \<Rightarrow> nat \<Rightarrow> py_error + 'a" where
  "py_index xs i = (if i < length xs then Inr (xs ! i) else Inl IndexError)"

definition int_max_str_digits :: nat where
  "int_max_str_digits = 4300"

text \<open>
  \<open>int(s)\<close>, base ten: surrounding whitespace is dropped, one sign may lead, and the
  digits may be grouped by single underscores; anything else is a ValueError, and so is
  a string of more than 4300 digits (leading zeros count, underscores do not). The
  whitespace \<open>int()\<close> drops is narrower than that of \<open>str.strip\<close>: the separators
  U+001C .. U+001F stay and make the string invalid.
\<close>

definition py_int_space :: "char \<Rightarrow> bool" where
  "py_int_space c = (of_char c \<in> {9, 10, 11, 12, 13, 32, 133, 160 :: nat})"

definition dec_value :: "string \<Rightarrow> nat" where
  "dec_value s = foldl (\<lambda>n c. 10 * n + (of_char c - 48)) 0 s"

fun int_digits_rest :: "string \<Rightarrow> bool" where
  "int_digits_rest [] = True"
| "int_digits_rest [c] = py_isdecimal c"
| "int_digits_rest (c # d # cs) =
     (if py_isdecimal c then int_digits_rest (d # cs)
      else c = CHR ''_'' \<and> py_isdecimal d \<and> int_digits_rest cs)"

definition int_digits :: "string \<Rightarrow> bool" where
  "int_digits s = (case s of [] \<Rightarrow> False | c # cs \<Rightarrow> py_isdecimal c \<and> int_digits_rest cs)"

definition py_int :: "string \<Rightarrow> py_error + int" where
  "py_int s =
     (let t = rev (dropWhile py_int_space (rev (dropWhile py_int_space s)));
          neg = (t \<noteq> [] \<and> hd t = CHR ''-'');
          body = (if t \<noteq> [] \<and> (hd t = CHR ''-'' \<or> hd t = CHR ''+'') then tl t else t);
          digits = filter py_isdecimal body
      in if int_digits body \<and> length digits \<le> int_max_str_digits
         then Inr ((if neg then - 1 else 1) * int (dec_value digits))
         else Inl ValueError)"

text \<open>
  \<open>str(n)\<close> of an integer, also inside an f-string: a ValueError when the number has
  more than 4300 digits.
\<close>

fun nat_str :: "nat \<Rightarrow> string" where
  "nat_str n = (if n < 10 then [char_of (48 + n)] else nat_str (n div 10) @ [char_of (48 + n mod 10)])"

definition py_str :: "int \<Rightarrow> py_error + string" where
  "py_str i =
     (let digits = nat_str (nat \<bar>i\<bar>)
      in if length digits > int_max_str_digits then Inl ValueError
         else Inr (if i < 0 then CHR ''-'' # digits else digits))"

section \<open>Platform, effects and the environment\<close>

text \<open>
  \<open>IS_MAC\<close> and \<open>IS_WIN\<close> are fixed once from \<open>platform.system()\<close>; at most one holds.
\<close>

datatype platform = MacLike | WindowsLike | Other

text \<open>
  What an operation does to the outside is recorded as a trace of events, in order.
  A rendered failure message keeps its text before the exception and the exception.
\<close>

datatype event =
    Subprocess string
  | Popen string
  | System string
  | Status string
  | Print string
  | PrintError string py_error
  | LogError string py_error

datatype psutil = NotInstalled | NoBattery | Battery string

text \<open>
  The environment answers each external call from the trace so far and the command, so
  the same command can answer differently after a deletion. \<open>subprocess_run\<close> either
  raises or completes with a return code and the captured standard output. \<open>os.popen\<close>
  and \<open>os.system\<close> are taken to return. \<open>health_text m d\<close> stands for Python's
  \<open>f"{(m / d) * 100:.2f}%"\<close> at \<open>d \<noteq> 0\<close>: double-precision arithmetic, which is not
  embedded.
\<close>

record env =
  subprocess_run :: "event list \<Rightarrow> string \<Rightarrow> py_error + int \<times> string"
  popen_read :: "event list \<Rightarrow> string \<Rightarrow> string"
  expanduser :: "string \<Rightarrow> string"
  expandvars :: "string \<Rightarrow> string"
  health_text :: "int \<Rightarrow> int \<Rightarrow> py_error + string"
  psutil_battery :: psutil

definition sq :: string where
  "sq = [CHR 0x27]"

definition dq :: string where
  "dq = [CHR 0x22]"

definition bs :: string where
  "bs = [CHR 0x5C]"

section \<open>run_command\<close>

definition run_command :: "env \<Rightarrow> string \<Rightarrow> event list \<Rightarrow> string option \<times> event list" where
  "run_command e command tr =
     (case subprocess_run e tr command of
        Inr (returncode, stdout) \<Rightarrow> (Some (py_strip stdout), tr @ [Subprocess command])
      | Inl err \<Rightarrow>
          (None, tr @ [Subprocess command,
                       LogError (''Error running command '' @ command @ '': '') err]))"

section \<open>get_battery_health\<close>

text \<open>
  \<open>re.search(r'"DesignCapacity"=(\d+)', data_str)\<close>: the leftmost place where the
  literal is followed by a digit, and group 1, the longest run of digits there.
\<close>

definition design_capacity_literal :: string where
  "design_capacity_literal = dq @ ''DesignCapacity'' @ dq @ ''=''"

fun re_search_design :: "string \<Rightarrow> string option" where
  "re_search_design [] = None"
| "re_search_design (c # cs) =
     (let digits = takeWhile py_isdecimal (drop (length design_capacity_literal) (c # cs))
      in if py_startswith (c # cs) design_capacity_literal \<and> digits \<noteq> []
         then Some digits else re_search_design cs)"

text \<open>
  Lines 36 to 41, from the two results of \<open>run_command\<close>. \<open>re.search\<close> on None is a
  TypeError; the two \<open>int()\<close> calls and the division come in the source's order.
\<close>

definition battery_health_mac :: "env \<Rightarrow> string option \<Rightarrow> string option \<Rightarrow> py_error + string" where
  "battery_health_mac e max_capacity data_str =
     (case data_str of
        None \<Rightarrow> Inl TypeError
      | Some d \<Rightarrow>
          (case (max_capacity, re_search_design d) of
             (Some m, Some design_capacity) \<Rightarrow>
               if m = [] then Inr ''N/A''
               else (case py_int m of
                       Inl err \<Rightarrow> Inl err
                     | Inr mi \<Rightarrow>
                         (case py_int design_capacity of
                            Inl err \<Rightarrow> Inl err
                          | Inr di \<Rightarrow>
                              if di = 0 then Inl ZeroDivisionError else health_text e mi di))
           | _ \<Rightarrow> Inr ''N/A''))"

definition get_battery_health :: "platform \<Rightarrow> env \<Rightarrow> event list \<Rightarrow> (py_error + string) \<times> event list" where
  "get_battery_health plat e tr =
     (case plat of
        MacLike \<Rightarrow>
          (let (max_capacity, tr1) =
                 run_command e (''ioreg -r -k MaxCapacity | grep 'MaxCapacity' | awk 'NR==1 {print $3}'' @ sq) tr;
               (data_str, tr2) =
                 run_command e (''ioreg -r -k DesignCapacity | grep 'DesignCapacity' | awk 'NR==1 {print $0}'' @ sq) tr1
           in (battery_health_mac e max_capacity data_str, tr2))
      | WindowsLike \<Rightarrow>
          (case psutil_battery e of
             NotInstalled \<Rightarrow> (Inr ''psutil not installed'', tr)
           | NoBattery \<Rightarrow> (Inr ''N/A'', tr)
           | Battery percent \<Rightarrow> (Inr (percent @ ''%''), tr))
      | Other \<Rightarrow> (Inr ''N/A'', tr))"

section \<open>get_cache_size\<close>

definition get_cache_size :: "platform \<Rightarrow> env \<Rightarrow> string \<Rightarrow> event list \<Rightarrow> string \<times> event list" where
  "get_cache_size plat e path tr =
     (case plat of
        MacLike \<Rightarrow>
          (let command = ''du -sh '' @ expanduser e path @ '' 2>/dev/null | awk '{print $1}'' @ sq;
               size = py_strip (popen_read e tr command)
           in (if size \<noteq> [] then size else ''0B'', tr @ [Popen command]))
      | WindowsLike \<Rightarrow> (''N/A'', tr)
      | Other \<Rightarrow> (''N/A'', tr))"

section \<open>clear_browser_cache and clear_cache\<close>

definition browser_cache_paths :: "platform \<Rightarrow> env \<Rightarrow> (string \<times> string) list" where
  "browser_cache_paths plat e =
     (case plat of
        MacLike \<Rightarrow>
          [(''Microsoft Edge'', ''~/Library/Caches/Microsoft Edge/*''),
           (''Safari'', ''~/Library/Caches/com.apple.Safari/*'')]
      | WindowsLike \<Rightarrow>
          [(''Edge'', expandvars e (''%LOCALAPPDATA%'' @ bs @ ''Microsoft'' @ bs @ ''Edge'' @ bs
                        @ ''User Data'' @ bs @ ''Default'' @ bs @ ''Cache'' @ bs @ ''*'')),
           (''Chrome'', expandvars e (''%LOCALAPPDATA%'' @ bs @ ''Google'' @ bs @ ''Chrome'' @ bs
                        @ ''User Data'' @ bs @ ''Default'' @ bs @ ''Cache'' @ bs @ ''*''))]
      | Other \<Rightarrow> [])"

fun clear_browser_loop :: "platform \<Rightarrow> env \<Rightarrow> (string \<times> string) list \<Rightarrow> event list \<Rightarrow> event list" where
  "clear_browser_loop plat e [] tr = tr"
| "clear_browser_loop plat e ((browser, path) # rest) tr =
     (let (size_before, tr1) = get_cache_size plat e path tr;
          tr2 = tr1 @ [Print (''[cyan]'' @ browser @ '' cache size before cleanup: ''
                              @ size_before @ ''[/cyan]'')];
          tr3 = tr2 @ [System (if plat = MacLike then ''rm -rf '' @ expanduser e path
                               else ''del /q '' @ dq @ path @ dq)];
          (size_after, tr4) = get_cache_size plat e path tr3;
          tr5 = tr4 @ [Print (''[green]'' @ browser @ '' cache cleared! Current size: ''
                              @ size_after @ ''[/green]'')]
      in clear_browser_loop plat e rest tr5)"

definition clear_browser_cache :: "platform \<Rightarrow> env \<Rightarrow> event list \<Rightarrow> event list" where
  "clear_browser_cache plat e tr = clear_browser_loop plat e (browser_cache_paths plat e) tr"

definition cache_paths :: "platform \<Rightarrow> env \<Rightarrow> string list" where
  "cache_paths plat e =
     (case plat of
        MacLike \<Rightarrow> [''~/Library/Caches'', ''/Library/Caches'']
      | WindowsLike \<Rightarrow> [expandvars e ''%TEMP%'', expandvars e (''C:'' @ bs @ ''Windows'' @ bs @ ''Temp'')]
      | Other \<Rightarrow> [])"

text \<open>
  The body of the \<open>for path in cache_paths\<close> loop of \<open>clear_cache\<close>, with the running
  \<open>total_freed\<close>. A size that \<open>int()\<close> rejects, or a difference too long to be
  formatted, ends the loop with the exception.
\<close>

fun clear_cache_loop ::
  "platform \<Rightarrow> env \<Rightarrow> string list \<Rightarrow> int \<Rightarrow> event list \<Rightarrow> (py_error + int) \<times> event list" where
  "clear_cache_loop plat e [] total_freed tr = (Inr total_freed, tr)"
| "clear_cache_loop plat e (path # rest) total_freed tr =
     (let expanded_path = expanduser e path;
          du = ''du -sm '' @ expanded_path @ '' 2>/dev/null | awk '{print $1}'' @ sq;
          (before_size, tr1) = (if plat = MacLike then run_command e du tr else (None, tr));
          tr2 = tr1 @ [System (if plat = MacLike then ''rm -rf '' @ expanded_path @ ''/*''
                               else ''del /q /s '' @ dq @ expanded_path @ bs @ ''*'' @ dq)];
          tr3 = clear_browser_cache plat e tr2;
          (after_size, tr4) = (if plat = MacLike then run_command e du tr3 else (None, tr3))
      in case (before_size, after_size) of
           (Some b, Some a) \<Rightarrow>
             if b \<noteq> [] \<and> a \<noteq> [] then
               (case py_int b of
                  Inl err \<Rightarrow> (Inl err, tr4)
                | Inr bi \<Rightarrow>
                    (case py_int a of
                       Inl err \<Rightarrow> (Inl err, tr4)
                     | Inr ai \<Rightarrow>
                         (case py_str (bi - ai) of
                            Inl err \<Rightarrow> (Inl err, tr4)
                          | Inr freed \<Rightarrow>
                              clear_cache_loop plat e rest (total_freed + (bi - ai))
                                (tr4 @ [Print (''Freed [green]'' @ freed
                                               @ '' MB[/green] from '' @ path)]))))
             else clear_cache_loop plat e rest total_freed tr4
         | _ \<Rightarrow> clear_cache_loop plat e rest total_freed tr4)"

definition clear_cache :: "platform \<Rightarrow> env \<Rightarrow> event list \<Rightarrow> event list" where
  "clear_cache plat e tr =
     (case clear_cache_loop plat e (cache_paths plat e) 0 (tr @ [Status ''[cyan]Clearing cache...'']) of
        (Inr total_freed, tr') \<Rightarrow> tr'
      | (Inl err, tr') \<Rightarrow> tr' @ [PrintError ''[red]Error clearing cache: '' err])"

section \<open>check_system_updates: the outdated listings\<close>

text \<open>A list comprehension whose element expression can raise: the first exception wins.\<close>

fun py_map :: "('a \<Rightarrow> py_error + 'b) \<Rightarrow> 'a list \<Rightarrow> py_error + 'b list" where
  "py_map f [] = Inr []"
| "py_map f (x # xs) =
     (case f x of
        Inl err \<Rightarrow> Inl err
      | Inr y \<Rightarrow> (case py_map f xs of Inl err \<Rightarrow> Inl err | Inr ys \<Rightarrow> Inr (y # ys)))"

text \<open>Line 128, from the result of \<open>brew outdated\<close>.\<close>

definition brew_outdated_list :: "string option \<Rightarrow> string list" where
  "brew_outdated_list brew_outdated =
     (case brew_outdated of
        None \<Rightarrow> []
      | Some s \<Rightarrow> if s \<noteq> [] then py_splitlines s else [])"

text \<open>Line 135, from the result of \<open>choco outdated\<close>.\<close>

definition choco_outdated_list :: "string option \<Rightarrow> py_error + string list" where
  "choco_outdated_list choco_outdated =
     (case choco_outdated of
        None \<Rightarrow> Inr []
      | Some s \<Rightarrow>
          if s \<noteq> [] then
            py_map (\<lambda>line. py_index (py_split line) 0)
              (filter (\<lambda>line. py_strip line \<noteq> []) (drop 1 (py_splitlines s)))
          else Inr [])"

text \<open>
  Lines 141 to 145: the index of the first line that, trimmed, starts with \<open>Name\<close>;
  0 when the loop ends without a \<open>break\<close>.
\<close>

fun header_from :: "nat \<Rightarrow> string list \<Rightarrow> nat" where
  "header_from i [] = 0"
| "header_from i (l # ls) =
     (if py_startswith (py_strip l) ''Name'' then i else header_from (Suc i) ls)"

text \<open>
  Lines 139 to 146, from the result of \<open>winget upgrade\<close>; \<open>splitlines\<close> of None is an
  AttributeError.
\<close>

definition winget_outdated_list :: "string option \<Rightarrow> py_error + string list" where
  "winget_outdated_list winget_outdated =
     (case winget_outdated of
        None \<Rightarrow> Inl AttributeError
      | Some s \<Rightarrow>
          (let lines = py_splitlines s
           in if length lines > 1 then
                (let header_idx = header_from 0 lines
                 in py_map (\<lambda>l. py_index (py_split l) 1)
                      (filter (\<lambda>l. py_strip l \<noteq> []) (drop (header_idx + 1) lines)))
              else Inr []))"

section \<open>check_system_updates: the upgrade selection\<close>

text \<open>Lines 188 and 246: \<open>[int(i.strip()) for i in upgrade_choice.split(",") if i.strip().isdigit()]\<close>.\<close>

definition parse_indices :: "string \<Rightarrow> py_error + int list" where
  "parse_indices upgrade_choice =
     py_map (\<lambda>i. py_int (py_strip i))
       (filter (\<lambda>i. py_isdigit (py_strip i)) (py_split_sep CHR '','' upgrade_choice))"

text \<open>
  Lines 189 and 247: \<open>[outdated_list[i-1] for i in indices if 0 < i <= len(outdated_list)]\<close>;
  the guard keeps every index in range.
\<close>

definition selected_pkgs :: "string list \<Rightarrow> int list \<Rightarrow> string list" where
  "selected_pkgs outdated_list indices =
     map (\<lambda>i. outdated_list ! nat (i - 1))
       (filter (\<lambda>i. 0 < i \<and> i \<le> int (length outdated_list)) indices)"

text \<open>
  The branch of lines 180 to 199 (and 235 to 260) that the reply to the upgrade prompt
  takes.
\<close>

datatype upgrade_outcome =
    UpgradeAll
  | NoUpgrade
  | UpgradeSelected "string list"
  | NoValidSelection
  | ParseFailure py_error

definition resolve_upgrade_choice :: "string list \<Rightarrow> string \<Rightarrow> upgrade_outcome" where
  "resolve_upgrade_choice outdated_list reply =
     (let upgrade_choice = py_lower (py_strip reply)
      in if upgrade_choice = ''a'' then UpgradeAll
         else if upgrade_choice = ''n'' then NoUpgrade
         else (case parse_indices upgrade_choice of
                 Inl err \<Rightarrow> ParseFailure err
               | Inr indices \<Rightarrow>
                   (let sel = selected_pkgs outdated_list indices
                    in if sel \<noteq> [] then UpgradeSelected sel else NoValidSelection)))"

text \<open>What each branch runs and renders on the Mac (Homebrew).\<close>

definition brew_upgrade_events :: "upgrade_outcome \<Rightarrow> event list" where
  "brew_upgrade_events out =
     (case out of
        UpgradeAll \<Rightarrow>
          [Status ''[yellow]Upgrading all outdated packages...[/yellow]'',
           System ''brew upgrade > /dev/null 2>&1'',
           Print ''[green]All packages upgraded![/green]'']
      | NoUpgrade \<Rightarrow> [Print ''[green]No packages upgraded.[/green]'']
      | UpgradeSelected pkgs \<Rightarrow>
          concat (map (\<lambda>pkg.
            [Status (''[yellow]Installing '' @ pkg @ ''...[/yellow]''),
             System (''brew upgrade '' @ pkg @ '' > /dev/null 2>&1''),
             Print (''[green]'' @ pkg @ '' upgraded![/green]'')]) pkgs)
          @ [Print ''[green]Selected packages upgraded![/green]'']
      | NoValidSelection \<Rightarrow> [Print ''[red]No valid packages selected.[/red]'']
      | ParseFailure err \<Rightarrow> [PrintError ''[red]Error parsing selection: '' err])"

text \<open>The same on Windows, for the package manager found (\<open>pkg_mgr\<close>).\<close>

datatype pkg_mgr = Choco | Winget

definition pkg_mgr_name :: "pkg_mgr \<Rightarrow> string" where
  "pkg_mgr_name m = (case m of Choco \<Rightarrow> ''choco'' | Winget \<Rightarrow> ''winget'')"

definition win_upgrade_events :: "pkg_mgr \<Rightarrow> upgrade_outcome \<Rightarrow> event list" where
  "win_upgrade_events m out =
     (case out of
        UpgradeAll \<Rightarrow>
          [Status (''[yellow]Upgrading all outdated '' @ pkg_mgr_name m @ '' packages...[/yellow]''),
           System (case m of Choco \<Rightarrow> ''choco upgrade all -y > NUL 2>&1''
                   | Winget \<Rightarrow> ''winget upgrade --all --silent > NUL 2>&1''),
           Print (''[green]All '' @ pkg_mgr_name m @ '' packages upgraded![/green]'')]
      | NoUpgrade \<Rightarrow> [Print ''[green]No packages upgraded.[/green]'']
      | UpgradeSelected pkgs \<Rightarrow>
          concat (map (\<lambda>pkg.
            [Status (''[yellow]Upgrading '' @ pkg @ ''...[/yellow]''),
             System (case m of Choco \<Rightarrow> ''choco upgrade '' @ pkg @ '' -y > NUL 2>&1''
                     | Winget \<Rightarrow> ''winget upgrade --id '' @ pkg @ '' --silent > NUL 2>&1''),
             Print (''[green]'' @ pkg @ '' upgraded![/green]'')]) pkgs)
          @ [Print ''[green]Selected packages upgraded![/green]'']
      | NoValidSelection \<Rightarrow> [Print ''[red]No valid packages selected.[/red]'']
      | ParseFailure err \<Rightarrow> [PrintError ''[red]Error parsing selection: '' err])"

section \<open>monitor_usage: the process listings\<close>

text \<open>
  One line of a listing (lines 334 to 337 and 345 to 348): the pid, the label and the
  displayed metric of an accepted line, None for a line that is passed over. On the Mac
  the metric is field 2 for the CPU listing and field 3 for the memory listing.
\<close>

definition mac_process_line :: "nat \<Rightarrow> string \<Rightarrow> (string \<times> string \<times> string) option" where
  "mac_process_line metric line =
     (let parts = py_split line
      in if length parts > 10 then Some (parts ! 1, parts ! 10, parts ! metric) else None)"

definition win_process_line :: "string \<Rightarrow> (string \<times> string \<times> string) option" where
  "win_process_line line =
     (let parts = py_split line
      in if length parts \<ge> 3 \<and> py_isdigit (parts ! 1)
         then Some (parts ! 1, parts ! 0, parts ! 2) else None)"

definition process_line :: "platform \<Rightarrow> nat \<Rightarrow> string \<Rightarrow> (string \<times> string \<times> string) option" where
  "process_line plat metric line =
     (case plat of
        MacLike \<Rightarrow> mac_process_line metric line
      | WindowsLike \<Rightarrow> win_process_line line
      | Other \<Rightarrow> None)"

text \<open>
  The loop over \<open>stats.splitlines()\<close>: the \<open>(pid, label)\<close> pairs appended to
  \<open>cpu_list\<close> or \<open>mem_list\<close>, in the order of the lines.
\<close>

definition process_lines :: "platform \<Rightarrow> nat \<Rightarrow> string list \<Rightarrow> (string \<times> string) list" where
  "process_lines plat metric lines =
     map (\<lambda>(pid, label, shown). (pid, label)) (List.map_filter (process_line plat metric) lines)"

text \<open>
  From the result of the listing command. On the two supported platforms
  \<open>splitlines\<close> of None is an AttributeError; elsewhere the listing is not read.
\<close>

definition process_list :: "platform \<Rightarrow> nat \<Rightarrow> string option \<Rightarrow> py_error + (string \<times> string) list" where
  "process_list plat metric stats =
     (if plat = Other then Inr []
      else (case stats of
              None \<Rightarrow> Inl AttributeError
            | Some s \<Rightarrow> Inr (process_lines plat metric (py_splitlines s))))"

section \<open>monitor_usage: the choice of a process, and kill_process\<close>

definition kill_process :: "platform \<Rightarrow> string \<Rightarrow> event list" where
  "kill_process plat pid =
     [System (if plat = WindowsLike then ''taskkill /PID '' @ pid @ '' /F''
              else ''kill -9 '' @ pid),
      Print (''[bold red]Process '' @ pid @ '' killed.[/bold red]'')]"

text \<open>
  Lines 370 to 372 (and 375 to 377), from the reply to the second prompt. \<open>int(idx)\<close>
  can raise after \<open>idx.isdigit()\<close> has passed.
\<close>

definition kill_selected :: "platform \<Rightarrow> (string \<times> string) list \<Rightarrow> string \<Rightarrow> py_error + event list" where
  "kill_selected plat procs idx =
     (if py_isdigit idx then
        (case py_int idx of
           Inl err \<Rightarrow> Inl err
         | Inr n \<Rightarrow>
             if 1 \<le> n \<and> n \<le> int (length procs)
             then Inr (kill_process plat (fst (procs ! nat (n - 1))))
             else Inr [])
      else Inr [])"

text \<open>
  Lines 362 to 382: \<open>action\<close> is the reply to the first prompt, \<open>idx\<close> the reply to
  the second, which is asked only on the first two branches. An exception reaches
  the handler of \<open>monitor_usage\<close>.
\<close>

definition monitor_usage_choice ::
  "platform \<Rightarrow> (string \<times> string) list \<Rightarrow> (string \<times> string) list \<Rightarrow> string \<Rightarrow> string \<Rightarrow> event list" where
  "monitor_usage_choice plat cpu_list mem_list action idx =
     [Print ''\<newline>[bold yellow]Select a process to kill:[/bold yellow]'',
      Print ''1. Kill a CPU-intensive process'',
      Print ''2. Kill a Memory-intensive process'',
      Print ''3. Cancel'']
     @ (if action = ''1'' \<and> cpu_list \<noteq> [] then
          (case kill_selected plat cpu_list idx of
             Inr evs \<Rightarrow> evs
           | Inl err \<Rightarrow> [PrintError ''[red] Failed to check the system usage : '' err])
        else if action = ''2'' \<and> mem_list \<noteq> [] then
          (case kill_selected plat mem_list idx of
             Inr evs \<Rightarrow> evs
           | Inl err \<Rightarrow> [PrintError ''[red] Failed to check the system usage : '' err])
        else [Print ''[green]No process killed.[/green]''])"

section \<open>The commands of a trace\<close>

text \<open>The command lines given to \<open>os.system\<close>, in the order of the trace.\<close>

definition commands_run :: "event list \<Rightarrow> string list" where
  "commands_run tr = List.map_filter (\<lambda>ev. case ev of System c \<Rightarrow> Some c | _ \<Rightarrow> None) tr"

section \<open>Sample inputs\<close>

text \<open>
  An environment in which \<open>exit 3\<close> runs and ends with return code 3 and no output,
  every other command fails to start, and every pipe reads empty.
\<close>

definition sample_env :: env where
  "sample_env =
     \<lparr>subprocess_run = (\<lambda>tr command. if command = ''exit 3'' then Inr (3, []) else Inl OSError),
      popen_read = (\<lambda>tr command. []),
      expanduser = (\<lambda>path. path),
      expandvars = (\<lambda>path. path),
      health_text = (\<lambda>m d. Inr []),
      psutil_battery = NoBattery\<rparr>"

text \<open>
  An environment in which the two \<open>ioreg\<close> pipelines of \<open>get_battery_health\<close> run
  and report a MaxCapacity of 4790 and a DesignCapacity of 0.
\<close>

definition zero_design_env :: env where
  "zero_design_env =
     \<lparr>subprocess_run = (\<lambda>tr command.
        if command = ''ioreg -r -k MaxCapacity | grep 'MaxCapacity' | awk 'NR==1 {print $3}'' @ sq
        then Inr (0, ''4790\<newline>'')
        else Inr (0, ''    | |   '' @ dq @ ''BatteryData'' @ dq @ '' = {'' @ dq @ ''DesignCapacity'' @ dq @ ''=0}\<newline>'')),
      popen_read = (\<lambda>tr command. []),
      expanduser = (\<lambda>path. path),
      expandvars = (\<lambda>path. path),
      health_text = (\<lambda>m d. Inr []),
      psutil_battery = NoBattery\<rparr>"

definition eight_records :: "string list" where
  "eight_records = [''r1'', ''r2'', ''r3'', ''r4'', ''r5'', ''r6'', ''r7'', ''r8'']"

definition three_packages :: "string list" where
  "three_packages = [''p1'', ''p2'', ''p3'']"

section \<open>Facts about the string operations\<close>

lemma split_from_Nil: "split_from cur s = [] \<longleftrightarrow> cur = [] \<and> list_all py_isspace s"
  by (induction s arbitrary: cur) auto

lemma py_strip_Nil: "py_strip s = [] \<longleftrightarrow> list_all py_isspace s"
proof -
  have "dropWhile py_isspace (rev (dropWhile py_isspace s)) = [] \<longleftrightarrow> dropWhile py_isspace s = []"
  proof
    assume a: "dropWhile py_isspace (rev (dropWhile py_isspace s)) = []"
    show "dropWhile py_isspace s = []"
    proof (rule ccontr)
      assume n: "dropWhile py_isspace s \<noteq> []"
      then have "\<not> py_isspace (hd (dropWhile py_isspace s))" by (rule hd_dropWhile)
      moreover have "hd (dropWhile py_isspace s) \<in> set (rev (dropWhile py_isspace s))"
        using n by simp
      ultimately show False using a by (auto simp: dropWhile_eq_Nil_conv)
    qed
  next
    assume b: "dropWhile py_isspace s = []"
    show "dropWhile py_isspace (rev (dropWhile py_isspace s)) = []"
      unfolding b by simp
  qed
  then show ?thesis
    by (simp add: py_strip_def dropWhile_eq_Nil_conv list_all_iff)
qed

lemma nonblank_has_token: "py_strip l \<noteq> [] \<Longrightarrow> py_split l \<noteq> []"
  by (simp add: py_strip_Nil py_split_def split_from_Nil)

lemma py_map_if:
  assumes "\<forall>x\<in>set xs. f x = (if ok x then Inr (g x) else Inl err)"
  shows "py_map f xs = (if list_all ok xs then Inr (map g xs) else Inl err)"
  using assms by (induction xs) auto

lemma py_map_Inr:
  assumes "\<forall>x\<in>set xs. f x = Inr (g x)"
  shows "py_map f xs = Inr (map g xs)"
  using assms by (induction xs) auto

lemma int_strip_id:
  assumes "\<forall>c\<in>set t. \<not> py_int_space c"
  shows "rev (dropWhile py_int_space (rev (dropWhile py_int_space t))) = t"
proof -
  have keep: "dropWhile py_int_space xs = xs" if "\<forall>c\<in>set xs. \<not> py_int_space c" for xs
    using that by (cases xs) auto
  have "dropWhile py_int_space t = t" using assms by (rule keep)
  moreover have "dropWhile py_int_space (rev t) = rev t" using assms by (intro keep) simp
  ultimately show ?thesis by simp
qed

lemma isdigit_char_facts:
  assumes "py_isdigit_char c"
  shows "\<not> py_int_space c" and "c \<noteq> CHR ''-''" and "c \<noteq> CHR ''+''" and "c \<noteq> CHR ''_''"
  using assms by (auto simp: py_isdigit_char_def py_isdecimal_def py_int_space_def)

lemma int_digits_rest_isdigit:
  "list_all py_isdigit_char cs \<Longrightarrow> int_digits_rest cs = list_all py_isdecimal cs"
  by (induction cs rule: int_digits_rest.induct) (auto simp: isdigit_char_facts)

lemma int_digits_isdigit:
  "py_isdigit t \<Longrightarrow> int_digits t = list_all py_isdecimal t"
  by (cases t) (auto simp: py_isdigit_def int_digits_def int_digits_rest_isdigit)

lemma filter_all: "list_all P xs \<Longrightarrow> filter P xs = xs"
  by (induction xs) auto

text \<open>
  \<open>int()\<close> of a string that passed \<open>str.isdigit\<close>: the value when every digit is
  decimal and there are at most 4300 of them, a ValueError otherwise.
\<close>

lemma py_int_isdigit:
  assumes "py_isdigit t"
  shows "py_int t =
           (if list_all py_isdecimal t \<and> length t \<le> int_max_str_digits
            then Inr (int (dec_value t)) else Inl ValueError)"
proof -
  from assms have ne: "t \<noteq> []" and all: "\<forall>c\<in>set t. py_isdigit_char c"
    by (auto simp: py_isdigit_def list_all_iff)
  have strip: "rev (dropWhile py_int_space (rev (dropWhile py_int_space t))) = t"
    using all by (intro int_strip_id) (auto simp: isdigit_char_facts)
  have hd: "py_isdigit_char (hd t)" using ne all by simp
  then have sign: "hd t \<noteq> CHR ''-''" "hd t \<noteq> CHR ''+''" by (auto simp: isdigit_char_facts)
  show ?thesis
  proof (cases "list_all py_isdecimal t")
    case True
    then show ?thesis
      using sign ne int_digits_isdigit[OF assms]
      by (simp add: py_int_def strip Let_def filter_all)
  next
    case False
    then show ?thesis
      using sign ne int_digits_isdigit[OF assms]
      by (simp add: py_int_def strip Let_def)
  qed
qed

lemma py_int_too_long:
  "py_isdigit t \<Longrightarrow> int_max_str_digits < length t \<Longrightarrow> py_int t = Inl ValueError"
  by (simp add: py_int_isdigit)

section \<open>run_command: what the caller gets\<close>



section \<open>get_battery_health on the Mac\<close>

text \<open>
  C1. The claim wants \<open>N/A\<close>, and no exception, whenever a reading is absent or not
  numeric or the design capacity is 0. The code raises instead: a design capacity of 0
  divides by zero, a MaxCapacity reading that is not a number fails in \<open>int()\<close>, and a
  DesignCapacity reading that \<open>run_command\<close> could not get fails in \<open>re.search\<close>.
  The last line runs \<open>get_battery_health\<close> itself where the registry reports a design
  capacity of 0.
\<close>

theorem battery_health_mac_raises:
  "battery_health_mac e (Some ''4790'') (Some (dq @ ''DesignCapacity'' @ dq @ ''=0'')) = Inl ZeroDivisionError
   \<and> battery_health_mac e (Some ''unknown'') (Some (dq @ ''DesignCapacity'' @ dq @ ''=4790'')) = Inl ValueError
   \<and> battery_health_mac e (Some ''4790'') None = Inl TypeError
   \<and> fst (get_battery_health MacLike zero_design_env []) = Inl ZeroDivisionError"
  by code_simp

section \<open>get_cache_size\<close>

text \<open>
  C8, as stated, fails on Windows: no command is run there and the value is \<open>N/A\<close>, not
  \<open>0B\<close>, also when a disk-usage command would have printed nothing.
\<close>

theorem get_cache_size_windows_counterexample:
  "popen_read sample_env [] (''du -sh %TEMP% 2>/dev/null | awk '{print $1}'' @ sq) = []
   \<and> fst (get_cache_size WindowsLike sample_env ''%TEMP%'' []) = ''N/A''"
  by (simp add: get_cache_size_def sample_env_def)

text \<open>
  C8, amended. On the Mac, when the disk-usage command prints nothing (or only
  whitespace) the value is \<open>0B\<close>. On Windows the value is always \<open>N/A\<close> and the
  trace is left as it was: no command is run. On every platform the value is a string
  that is not empty, never None.
\<close>

theorem get_cache_size_default:
  "(list_all py_isspace (popen_read e tr (''du -sh '' @ expanduser e path @ '' 2>/dev/null | awk '{print $1}'' @ sq))
      \<longrightarrow> fst (get_cache_size MacLike e path tr) = ''0B'')
   \<and> get_cache_size WindowsLike e path tr = (''N/A'', tr)
   \<and> fst (get_cache_size plat e path tr) \<noteq> []"
  by (cases plat) (simp_all add: get_cache_size_def Let_def py_strip_Nil)

theorem get_cache_size_default_witness:
  "list_all py_isspace (popen_read sample_env [] (''du -sh ~/Library/Caches 2>/dev/null | awk '{print $1}'' @ sq))
   \<and> fst (get_cache_size MacLike sample_env ''~/Library/Caches'' []) = ''0B''"
  using get_cache_size_default [of sample_env "[]" "''~/Library/Caches''"]
  by (simp add: sample_env_def)

section \<open>clear_cache on an unsupported platform\<close>

text \<open>
  C7. On a platform that is neither Mac nor Windows the list of cache paths is empty and
  \<open>clear_cache\<close> adds only its status line to the trace: no command is run, so nothing
  is deleted and \<open>clear_browser_cache\<close> is not reached, and no message is rendered.
\<close>

theorem clear_cache_other:
  "cache_paths Other e = [] \<and> clear_cache Other e tr = tr @ [Status ''[cyan]Clearing cache...'']"
  by (simp add: clear_cache_def cache_paths_def)

section \<open>The upgrade selection\<close>

text \<open>
  The tokens of a reply are its comma-separated pieces, trimmed, that pass
  \<open>str.isdigit\<close>. When each of them is made of at most 4300 decimal digits, \<open>int()\<close>
  reads them all; one superscript digit among them, or one token that is longer, makes
  \<open>int()\<close> raise.
\<close>

lemma parse_indices_tokens:
  "parse_indices choice =
     (let tokens = filter py_isdigit (map py_strip (py_split_sep CHR '','' choice))
      in if list_all (\<lambda>t. list_all py_isdecimal t \<and> length t \<le> int_max_str_digits) tokens
         then Inr (map (\<lambda>t. int (dec_value t)) tokens) else Inl ValueError)"
proof -
  let ?raw = "filter (\<lambda>i. py_isdigit (py_strip i)) (py_split_sep CHR '','' choice)"
  let ?ok = "\<lambda>i. list_all py_isdecimal (py_strip i) \<and> length (py_strip i) \<le> int_max_str_digits"
  have toks: "filter py_isdigit (map py_strip (py_split_sep CHR '','' choice)) = map py_strip ?raw"
    by (simp add: filter_map comp_def)
  have "\<forall>i\<in>set ?raw. py_int (py_strip i) =
          (if ?ok i then Inr (int (dec_value (py_strip i))) else Inl ValueError)"
    by (auto simp: py_int_isdigit)
  then have "py_map (\<lambda>i. py_int (py_strip i)) ?raw =
      (if list_all ?ok ?raw
       then Inr (map (\<lambda>i. int (dec_value (py_strip i))) ?raw) else Inl ValueError)"
    by (rule py_map_if)
  then show ?thesis
    unfolding parse_indices_def toks Let_def
    by (simp add: list_all_iff comp_def)
qed

lemma selected_pkgs_tokens:
  "selected_pkgs outdated_list (map (\<lambda>t. int (dec_value t)) tokens) =
     map (\<lambda>t. outdated_list ! (dec_value t - 1))
       (filter (\<lambda>t. 1 \<le> dec_value t \<and> dec_value t \<le> length outdated_list) tokens)"
proof -
  have "nat (int n - 1) = n - 1" for n :: nat by simp
  moreover have "(0 < int n \<and> int n \<le> int m) = (1 \<le> n \<and> n \<le> m)" for n m :: nat by auto
  ultimately show ?thesis
    by (simp add: selected_pkgs_def filter_map comp_def)
qed

lemma resolve_upgrade_choice_outcome:
  "resolve_upgrade_choice outdated_list reply =
     (let choice = py_lower (py_strip reply);
          tokens = filter py_isdigit (map py_strip (py_split_sep CHR '','' choice));
          sel = map (\<lambda>t. outdated_list ! (dec_value t - 1))
                  (filter (\<lambda>t. 1 \<le> dec_value t \<and> dec_value t \<le> length outdated_list) tokens)
      in if choice = ''a'' then UpgradeAll
         else if choice = ''n'' then NoUpgrade
         else if \<not> list_all (\<lambda>t. list_all py_isdecimal t \<and> length t \<le> int_max_str_digits) tokens
           then ParseFailure ValueError
         else if sel = [] then NoValidSelection
         else UpgradeSelected sel)"
  by (simp add: resolve_upgrade_choice_def parse_indices_tokens selected_pkgs_tokens Let_def)

text \<open>
  What each branch runs: the upgrade of everything for \<open>a\<close>, one upgrade for each
  selected package, in the order of the selection and as often as it repeats a
  package, and no command on the three branches that select nothing.
\<close>

lemma brew_commands_run:
  "commands_run (brew_upgrade_events out) =
     (case out of
        UpgradeAll \<Rightarrow> [''brew upgrade > /dev/null 2>&1'']
      | UpgradeSelected pkgs \<Rightarrow> map (\<lambda>pkg. ''brew upgrade '' @ pkg @ '' > /dev/null 2>&1'') pkgs
      | _ \<Rightarrow> [])"
proof (cases out)
  case (UpgradeSelected pkgs)
  have "commands_run (concat (map (\<lambda>pkg.
            [Status (''[yellow]Installing '' @ pkg @ ''...[/yellow]''),
             System (''brew upgrade '' @ pkg @ '' > /dev/null 2>&1''),
             Print (''[green]'' @ pkg @ '' upgraded![/green]'')]) pkgs) @ rest)
        = map (\<lambda>pkg. ''brew upgrade '' @ pkg @ '' > /dev/null 2>&1'') pkgs @ commands_run rest" for rest
    by (induction pkgs) (simp_all add: commands_run_def List.map_filter_def)
  from this[of "[Print ''[green]Selected packages upgraded![/green]'']"] UpgradeSelected
  show ?thesis by (simp add: brew_upgrade_events_def commands_run_def List.map_filter_def)
qed (simp_all add: brew_upgrade_events_def commands_run_def List.map_filter_def)

lemma win_commands_run:
  "commands_run (win_upgrade_events m out) =
     (case out of
        UpgradeAll \<Rightarrow> [case m of Choco \<Rightarrow> ''choco upgrade all -y > NUL 2>&1''
                        | Winget \<Rightarrow> ''winget upgrade --all --silent > NUL 2>&1'']
      | UpgradeSelected pkgs \<Rightarrow>
          map (\<lambda>pkg. case m of Choco \<Rightarrow> ''choco upgrade '' @ pkg @ '' -y > NUL 2>&1''
                     | Winget \<Rightarrow> ''winget upgrade --id '' @ pkg @ '' --silent > NUL 2>&1'') pkgs
      | _ \<Rightarrow> [])"
proof (cases out)
  case (UpgradeSelected pkgs)
  have "commands_run (concat (map (\<lambda>pkg.
            [Status (''[yellow]Upgrading '' @ pkg @ ''...[/yellow]''),
             System (case m of Choco \<Rightarrow> ''choco upgrade '' @ pkg @ '' -y > NUL 2>&1''
                     | Winget \<Rightarrow> ''winget upgrade --id '' @ pkg @ '' --silent > NUL 2>&1''),
             Print (''[green]'' @ pkg @ '' upgraded![/green]'')]) pkgs) @ rest)
        = map (\<lambda>pkg. case m of Choco \<Rightarrow> ''choco upgrade '' @ pkg @ '' -y > NUL 2>&1''
                     | Winget \<Rightarrow> ''winget upgrade --id '' @ pkg @ '' --silent > NUL 2>&1'') pkgs
          @ commands_run rest" for rest
    by (induction pkgs) (simp_all add: commands_run_def List.map_filter_def)
  from this[of "[Print ''[green]Selected packages upgraded![/green]'']"] UpgradeSelected
  show ?thesis by (simp add: win_upgrade_events_def commands_run_def List.map_filter_def)
qed (simp_all add: win_upgrade_events_def commands_run_def List.map_filter_def)

text \<open>
  C2, as stated, fails: in the reply \<open>1,\<twosuperior>\<close> the token \<open>1\<close> is a valid index and the
  token \<open>\<twosuperior>\<close> is no integer, yet the second is not dropped in silence and the first
  is not selected. The superscript digit passes \<open>isdigit\<close>, \<open>int()\<close> raises on it, and
  the handler renders the parse error and selects nothing.
\<close>

theorem resolve_upgrade_choice_superscript_counterexample:
  "py_int ''1'' = Inr 1
   \<and> py_int [CHR 0xB2] = Inl ValueError
   \<and> resolve_upgrade_choice eight_records (''1,'' @ [CHR 0xB2]) = ParseFailure ValueError"
  by code_simp

text \<open>
  C2, amended. The reply is trimmed and put in lower case. \<open>a\<close> selects all records and
  \<open>n\<close> none. Any other reply is split at commas; the pieces that, trimmed, pass
  \<open>str.isdigit\<close> are the tokens, every other piece is dropped in silence. If \<open>int()\<close>
  rejects a token, because one of its digits is not decimal or because it has more than
  4300 digits, the selection is none and the parse error is rendered. Otherwise the
  tokens with a value in 1 .. length select their records, tokens out of range are
  dropped in silence, and when nothing is left the selection is none and the notice
  that no valid package was selected is rendered. The result is a value in every case:
  no reply makes the resolution raise. The second and third equations give what is run
  and rendered on the Mac and, for either package manager, on Windows.
\<close>

theorem resolve_upgrade_choice_cases:
  "resolve_upgrade_choice outdated_list reply =
     (let choice = py_lower (py_strip reply);
          tokens = filter py_isdigit (map py_strip (py_split_sep CHR '','' choice));
          sel = map (\<lambda>t. outdated_list ! (dec_value t - 1))
                  (filter (\<lambda>t. 1 \<le> dec_value t \<and> dec_value t \<le> length outdated_list) tokens)
      in if choice = ''a'' then UpgradeAll
         else if choice = ''n'' then NoUpgrade
         else if \<not> list_all (\<lambda>t. list_all py_isdecimal t \<and> length t \<le> int_max_str_digits) tokens
           then ParseFailure ValueError
         else if sel = [] then NoValidSelection
         else UpgradeSelected sel)
   \<and> brew_upgrade_events (resolve_upgrade_choice outdated_list reply) =
     (let choice = py_lower (py_strip reply);
          tokens = filter py_isdigit (map py_strip (py_split_sep CHR '','' choice));
          sel = map (\<lambda>t. outdated_list ! (dec_value t - 1))
                  (filter (\<lambda>t. 1 \<le> dec_value t \<and> dec_value t \<le> length outdated_list) tokens)
      in if choice = ''a'' then
           [Status ''[yellow]Upgrading all outdated packages...[/yellow]'',
            System ''brew upgrade > /dev/null 2>&1'',
            Print ''[green]All packages upgraded![/green]'']
         else if choice = ''n'' then [Print ''[green]No packages upgraded.[/green]'']
         else if \<not> list_all (\<lambda>t. list_all py_isdecimal t \<and> length t \<le> int_max_str_digits) tokens
           then [PrintError ''[red]Error parsing selection: '' ValueError]
         else if sel = [] then [Print ''[red]No valid packages selected.[/red]'']
         else concat (map (\<lambda>pkg.
                [Status (''[yellow]Installing '' @ pkg @ ''...[/yellow]''),
                 System (''brew upgrade '' @ pkg @ '' > /dev/null 2>&1''),
                 Print (''[green]'' @ pkg @ '' upgraded![/green]'')]) sel)
              @ [Print ''[green]Selected packages upgraded![/green]''])
   \<and> win_upgrade_events m (resolve_upgrade_choice outdated_list reply) =
     (let choice = py_lower (py_strip reply);
          tokens = filter py_isdigit (map py_strip (py_split_sep CHR '','' choice));
          sel = map (\<lambda>t. outdated_list ! (dec_value t - 1))
                  (filter (\<lambda>t. 1 \<le> dec_value t \<and> dec_value t \<le> length outdated_list) tokens)
      in if choice = ''a'' then
           [Status (''[yellow]Upgrading all outdated '' @ pkg_mgr_name m @ '' packages...[/yellow]''),
            System (case m of Choco \<Rightarrow> ''choco upgrade all -y > NUL 2>&1''
                    | Winget \<Rightarrow> ''winget upgrade --all --silent > NUL 2>&1''),
            Print (''[green]All '' @ pkg_mgr_name m @ '' packages upgraded![/green]'')]
         else if choice = ''n'' then [Print ''[green]No packages upgraded.[/green]'']
         else if \<not> list_all (\<lambda>t. list_all py_isdecimal t \<and> length t \<le> int_max_str_digits) tokens
           then [PrintError ''[red]Error parsing selection: '' ValueError]
         else if sel = [] then [Print ''[red]No valid packages selected.[/red]'']
         else concat (map (\<lambda>pkg.
                [Status (''[yellow]Upgrading '' @ pkg @ ''...[/yellow]''),
                 System (case m of Choco \<Rightarrow> ''choco upgrade '' @ pkg @ '' -y > NUL 2>&1''
                         | Winget \<Rightarrow> ''winget upgrade --id '' @ pkg @ '' --silent > NUL 2>&1''),
                 Print (''[green]'' @ pkg @ '' upgraded![/green]'')]) sel)
              @ [Print ''[green]Selected packages upgraded![/green]''])"
  by (simp add: resolve_upgrade_choice_outcome brew_upgrade_events_def win_upgrade_events_def Let_def)

theorem resolve_upgrade_choice_cases_witness:
  "resolve_upgrade_choice eight_records ''3,1,99,x'' = UpgradeSelected [''r3'', ''r1'']
   \<and> brew_upgrade_events (resolve_upgrade_choice eight_records ''bogus'')
       = [Print ''[red]No valid packages selected.[/red]'']"
proof -
  have "(let choice = py_lower (py_strip ''3,1,99,x'');
          tokens = filter py_isdigit (map py_strip (py_split_sep CHR '','' choice));
          sel = map (\<lambda>t. eight_records ! (dec_value t - 1))
                  (filter (\<lambda>t. 1 \<le> dec_value t \<and> dec_value t \<le> length eight_records) tokens)
      in if choice = ''a'' then UpgradeAll
         else if choice = ''n'' then NoUpgrade
         else if \<not> list_all (\<lambda>t. list_all py_isdecimal t \<and> length t \<le> int_max_str_digits) tokens
           then ParseFailure ValueError
         else if sel = [] then NoValidSelection
         else UpgradeSelected sel) = UpgradeSelected [''r3'', ''r1'']"
    by code_simp
  then have sel: "resolve_upgrade_choice eight_records ''3,1,99,x'' = UpgradeSelected [''r3'', ''r1'']"
    by (simp only: resolve_upgrade_choice_cases [THEN conjunct1])
  have "(let choice = py_lower (py_strip ''bogus'');
          tokens = filter py_isdigit (map py_strip (py_split_sep CHR '','' choice));
          sel = map (\<lambda>t. eight_records ! (dec_value t - 1))
                  (filter (\<lambda>t. 1 \<le> dec_value t \<and> dec_value t \<le> length eight_records) tokens)
      in if choice = ''a'' then
           [Status ''[yellow]Upgrading all outdated packages...[/yellow]'',
            System ''brew upgrade > /dev/null 2>&1'',
            Print ''[green]All packages upgraded![/green]'']
         else if choice = ''n'' then [Print ''[green]No packages upgraded.[/green]'']
         else if \<not> list_all (\<lambda>t. list_all py_isdecimal t \<and> length t \<le> int_max_str_digits) tokens
           then [PrintError ''[red]Error parsing selection: '' ValueError]
         else if sel = [] then [Print ''[red]No valid packages selected.[/red]'']
         else concat (map (\<lambda>pkg.
                [Status (''[yellow]Installing '' @ pkg @ ''...[/yellow]''),
                 System (''brew upgrade '' @ pkg @ '' > /dev/null 2>&1''),
                 Print (''[green]'' @ pkg @ '' upgraded![/green]'')]) sel)
              @ [Print ''[green]Selected packages upgraded![/green]''])
        = [Print ''[red]No valid packages selected.[/red]'']"
    by code_simp
  then have "brew_upgrade_events (resolve_upgrade_choice eight_records ''bogus'')
       = [Print ''[red]No valid packages selected.[/red]'']"
    by (simp only: resolve_upgrade_choice_cases [THEN conjunct2, THEN conjunct1])
  with sel show ?thesis by simp
qed

text \<open>
  C10, as stated, fails for the same reason: in \<open>3,1,\<twosuperior>\<close> over three packages the
  valid indices are 3 and 1, and no package is selected.
\<close>

theorem selection_superscript_counterexample:
  "resolve_upgrade_choice three_packages (''3,1,'' @ [CHR 0xB2]) = ParseFailure ValueError"
  by code_simp

text \<open>
  C10, amended. For a reply other than \<open>a\<close> and \<open>n\<close> whose tokens are all made of
  at most 4300 decimal digits and hold at least one index in 1 .. length, the selected
  packages are the packages at the tokens' values that are in range, in the order of
  the reply and as often as the reply repeats them.
\<close>

theorem selection_keeps_input_order:
  assumes "py_lower (py_strip reply) \<noteq> ''a''" and "py_lower (py_strip reply) \<noteq> ''n''"
    and "tokens = filter py_isdigit (map py_strip (py_split_sep CHR '','' (py_lower (py_strip reply))))"
    and "list_all (\<lambda>t. list_all py_isdecimal t \<and> length t \<le> int_max_str_digits) tokens"
    and "\<exists>t\<in>set tokens. 1 \<le> dec_value t \<and> dec_value t \<le> length outdated_list"
  shows "resolve_upgrade_choice outdated_list reply =
           UpgradeSelected (map (\<lambda>n. outdated_list ! (n - 1))
             (filter (\<lambda>n. 1 \<le> n \<and> n \<le> length outdated_list) (map dec_value tokens)))"
proof -
  let ?valid = "filter (\<lambda>t. 1 \<le> dec_value t \<and> dec_value t \<le> length outdated_list) tokens"
  have parsed: "parse_indices (py_lower (py_strip reply)) = Inr (map (\<lambda>t. int (dec_value t)) tokens)"
    using assms(3,4) by (simp add: parse_indices_tokens Let_def)
  have "?valid \<noteq> []" using assms(5) by (auto simp: filter_empty_conv)
  then have sel: "selected_pkgs outdated_list (map (\<lambda>t. int (dec_value t)) tokens) \<noteq> []"
    by (simp add: selected_pkgs_tokens)
  have "map (\<lambda>n. outdated_list ! (n - 1))
          (filter (\<lambda>n. 1 \<le> n \<and> n \<le> length outdated_list) (map dec_value tokens))
        = selected_pkgs outdated_list (map (\<lambda>t. int (dec_value t)) tokens)"
    by (simp add: selected_pkgs_tokens filter_map comp_def)
  then show ?thesis
    using assms(1,2) parsed sel by (simp add: resolve_upgrade_choice_def Let_def)
qed

theorem selection_keeps_input_order_witness:
  "resolve_upgrade_choice three_packages ''3,1,3'' = UpgradeSelected [''p3'', ''p1'', ''p3'']"
proof -
  have a: "py_lower (py_strip ''3,1,3'') \<noteq> ''a''" and n: "py_lower (py_strip ''3,1,3'') \<noteq> ''n''"
    by code_simp+
  have t: "[''3'', ''1'', ''3''] = filter py_isdigit (map py_strip (py_split_sep CHR '','' (py_lower (py_strip ''3,1,3''))))"
    by code_simp
  have d: "list_all (\<lambda>t. list_all py_isdecimal t \<and> length t \<le> int_max_str_digits) [''3'', ''1'', ''3'']"
    by code_simp
  have "1 \<le> dec_value ''3'' \<and> dec_value ''3'' \<le> length three_packages" by code_simp
  then have v: "\<exists>t\<in>set [''3'', ''1'', ''3'']. 1 \<le> dec_value t \<and> dec_value t \<le> length three_packages"
    by simp
  have "map (\<lambda>n. three_packages ! (n - 1))
          (filter (\<lambda>n. 1 \<le> n \<and> n \<le> length three_packages) (map dec_value [''3'', ''1'', ''3'']))
        = [''p3'', ''p1'', ''p3'']"
    by code_simp
  with selection_keeps_input_order [OF a n t d v] show ?thesis by simp
qed

section \<open>The outdated listings\<close>

lemma choco_first_token:
  "py_strip line \<noteq> [] \<Longrightarrow> py_index (py_split line) 0 = Inr (py_split line ! 0)"
  using nonblank_has_token [of line] by (simp add: py_index_def)

text \<open>
  C3, as stated, fails on its own example: the data lines hold no whitespace, so the
  first whitespace-delimited token of each is the whole line.
\<close>

theorem choco_outdated_list_example_counterexample:
  "choco_outdated_list (Some ''Name|Version|Available\<newline>pkgA|1.0|1.1\<newline>pkgB|2.0|2.1'')
     \<noteq> Inr [''pkgA'', ''pkgB'']"
  by code_simp

text \<open>
  C3, amended. The choco parser never raises; it skips the first line and takes the
  first whitespace-delimited token of each remaining line that is not blank. On the
  example of the claim it yields the two whole data lines, in that order; when the
  columns are separated by spaces it yields \<open>pkgA\<close> and \<open>pkgB\<close>.
\<close>

theorem choco_outdated_list_rule:
  "choco_outdated_list None = Inr []
   \<and> choco_outdated_list (Some s) =
       Inr (map (\<lambda>line. py_split line ! 0)
              (filter (\<lambda>line. py_strip line \<noteq> []) (drop 1 (py_splitlines s))))
   \<and> choco_outdated_list (Some ''Name|Version|Available\<newline>pkgA|1.0|1.1\<newline>pkgB|2.0|2.1'')
       = Inr [''pkgA|1.0|1.1'', ''pkgB|2.0|2.1'']
   \<and> choco_outdated_list (Some ''Name Version Available\<newline>pkgA 1.0 1.1\<newline>pkgB 2.0 2.1'')
       = Inr [''pkgA'', ''pkgB'']"
proof -
  have "py_map (\<lambda>line. py_index (py_split line) 0)
          (filter (\<lambda>line. py_strip line \<noteq> []) (drop 1 (py_splitlines s)))
        = Inr (map (\<lambda>line. py_split line ! 0)
            (filter (\<lambda>line. py_strip line \<noteq> []) (drop 1 (py_splitlines s))))"
    by (rule py_map_Inr) (simp add: choco_first_token)
  then have general: "choco_outdated_list (Some s) =
       Inr (map (\<lambda>line. py_split line ! 0)
              (filter (\<lambda>line. py_strip line \<noteq> []) (drop 1 (py_splitlines s))))"
    by (cases "s = []") (simp_all add: choco_outdated_list_def py_splitlines_def)
  have none: "choco_outdated_list None = Inr []" by (simp add: choco_outdated_list_def)
  have ex1: "choco_outdated_list (Some ''Name|Version|Available\<newline>pkgA|1.0|1.1\<newline>pkgB|2.0|2.1'')
       = Inr [''pkgA|1.0|1.1'', ''pkgB|2.0|2.1'']" by code_simp
  have ex2: "choco_outdated_list (Some ''Name Version Available\<newline>pkgA 1.0 1.1\<newline>pkgB 2.0 2.1'')
       = Inr [''pkgA'', ''pkgB'']" by code_simp
  show ?thesis using none general ex1 ex2 by blast
qed

text \<open>
  C5. A package line with too few tokens is not dropped by the winget parser: the rule
  under a winget header has one token, \<open>l.split()[1]\<close> raises IndexError, and the
  lines after it are not parsed.
\<close>

theorem winget_short_line_raises:
  "winget_outdated_list (Some ''Name  Id  Version\<newline>-----------------\<newline>Foo  foo.id  1.0'') = Inl IndexError"
  by code_simp


text \<open>
  The process listings of \<open>monitor_usage\<close> do pass over a short line: it adds no record
  and the lines around it are parsed as if it were not there.
\<close>

lemma short_process_line_dropped:
  assumes "(plat = MacLike \<and> length (py_split l) \<le> 10) \<or> (plat = WindowsLike \<and> length (py_split l) < 3)"
  shows "process_lines plat metric (before @ l # after) =
           process_lines plat metric before @ process_lines plat metric after"
proof -
  have "process_line plat metric l = None"
    using assms by (auto simp: process_line_def mac_process_line_def win_process_line_def Let_def)
  then show ?thesis
    by (simp add: process_lines_def List.map_filter_def)
qed

text \<open>
  The header of a winget listing, as the loop of lines 142 to 145 finds it: the first
  line whose trimmed text starts with \<open>Name\<close>, and line 0 when there is none.
\<close>

lemma header_from_none:
  "\<forall>l\<in>set ls. \<not> py_startswith (py_strip l) ''Name'' \<Longrightarrow> header_from i ls = 0"
  by (induction ls arbitrary: i) auto

lemma header_from_first:
  "\<exists>l\<in>set ls. py_startswith (py_strip l) ''Name'' \<Longrightarrow>
   \<exists>j<length ls. header_from i ls = i + j \<and> py_startswith (py_strip (ls ! j)) ''Name''
      \<and> (\<forall>k<j. \<not> py_startswith (py_strip (ls ! k)) ''Name'')"
proof (induction ls arbitrary: i)
  case Nil
  then show ?case by simp
next
  case (Cons l ls)
  show ?case
  proof (cases "py_startswith (py_strip l) ''Name''")
    case True
    then show ?thesis by (intro exI[of _ 0]) simp
  next
    case False
    with Cons.prems have "\<exists>l\<in>set ls. py_startswith (py_strip l) ''Name''" by auto
    from Cons.IH[OF this, of "Suc i"] obtain j where j: "j < length ls"
      "header_from (Suc i) ls = Suc i + j" "py_startswith (py_strip (ls ! j)) ''Name''"
      "\<forall>k<j. \<not> py_startswith (py_strip (ls ! k)) ''Name''" by blast
    have "\<forall>k<Suc j. \<not> py_startswith (py_strip ((l # ls) ! k)) ''Name''"
      using False j(4) by (auto simp: less_Suc_eq_0_disj)
    with j False show ?thesis by (intro exI[of _ "Suc j"]) simp
  qed
qed

text \<open>
  C4, as stated, fails: in the listing below the line whose first token is \<open>Name\<close> is
  the second one and one package line follows it, but the parser takes the first line
  for the header, because its text starts with \<open>Name\<close>, and yields \<open>Id\<close> as well.
\<close>

theorem winget_header_prefix_counterexample:
  "py_split (py_splitlines ''Namespace  x\<newline>Name  Id  Version\<newline>Foo  foo.id  1.0'' ! 0) ! 0 \<noteq> ''Name''
   \<and> py_split (py_splitlines ''Namespace  x\<newline>Name  Id  Version\<newline>Foo  foo.id  1.0'' ! 1) ! 0 = ''Name''
   \<and> winget_outdated_list (Some ''Namespace  x\<newline>Name  Id  Version\<newline>Foo  foo.id  1.0'')
       = Inr [''Id'', ''foo.id'']"
  by code_simp

text \<open>
  C4, amended. For a listing of more than one line, the winget parser takes for the
  header the first line whose trimmed text starts with \<open>Name\<close> (the first line of the
  listing when no line does) and, when every later line that is not blank has at least
  two tokens, yields the second whitespace-delimited token of each of these lines, in
  order. On the header \<open>Name  Id  Version\<close> followed by \<open>Foo  foo.id  1.0\<close> it yields
  \<open>foo.id\<close> alone.
\<close>

theorem winget_outdated_list_rule:
  assumes "lines = py_splitlines s" and "1 < length lines"
    and "h = header_from 0 lines"
    and "\<forall>l\<in>set (drop (Suc h) lines). py_strip l \<noteq> [] \<longrightarrow> 2 \<le> length (py_split l)"
  shows "winget_outdated_list (Some s) =
           Inr (map (\<lambda>l. py_split l ! 1) (filter (\<lambda>l. py_strip l \<noteq> []) (drop (Suc h) lines)))
         \<and> ((h < length lines \<and> py_startswith (py_strip (lines ! h)) ''Name''
              \<and> (\<forall>k<h. \<not> py_startswith (py_strip (lines ! k)) ''Name''))
            \<or> (h = 0 \<and> (\<forall>l\<in>set lines. \<not> py_startswith (py_strip l) ''Name'')))"
proof
  have "py_map (\<lambda>l. py_index (py_split l) 1) (filter (\<lambda>l. py_strip l \<noteq> []) (drop (Suc h) lines))
        = Inr (map (\<lambda>l. py_split l ! 1) (filter (\<lambda>l. py_strip l \<noteq> []) (drop (Suc h) lines)))"
    using assms(4) by (intro py_map_Inr) (auto simp: py_index_def)
  then show "winget_outdated_list (Some s) =
           Inr (map (\<lambda>l. py_split l ! 1) (filter (\<lambda>l. py_strip l \<noteq> []) (drop (Suc h) lines)))"
    using assms(1,2,3) by (simp add: winget_outdated_list_def Let_def)
next
  show "(h < length lines \<and> py_startswith (py_strip (lines ! h)) ''Name''
              \<and> (\<forall>k<h. \<not> py_startswith (py_strip (lines ! k)) ''Name''))
            \<or> (h = 0 \<and> (\<forall>l\<in>set lines. \<not> py_startswith (py_strip l) ''Name''))"
  proof (cases "\<exists>l\<in>set lines. py_startswith (py_strip l) ''Name''")
    case True
    from header_from_first[OF True, of 0] show ?thesis using assms(3) by auto
  next
    case False
    then show ?thesis using assms(3) header_from_none[of lines 0] by auto
  qed
qed

theorem winget_outdated_list_rule_witness:
  "winget_outdated_list (Some ''Name  Id  Version\<newline>Foo  foo.id  1.0'') = Inr [''foo.id'']"
proof -
  have l: "[''Name  Id  Version'', ''Foo  foo.id  1.0''] = py_splitlines ''Name  Id  Version\<newline>Foo  foo.id  1.0''"
    by code_simp
  have n: "1 < length [''Name  Id  Version'', ''Foo  foo.id  1.0'']" by simp
  have h: "0 = header_from 0 [''Name  Id  Version'', ''Foo  foo.id  1.0'']" by code_simp
  have "2 \<le> length (py_split ''Foo  foo.id  1.0'')" by code_simp
  then have t: "\<forall>l\<in>set (drop (Suc 0) [''Name  Id  Version'', ''Foo  foo.id  1.0'']).
      py_strip l \<noteq> [] \<longrightarrow> 2 \<le> length (py_split l)" by simp
  have "map (\<lambda>l. py_split l ! 1) (filter (\<lambda>l. py_strip l \<noteq> [])
          (drop (Suc 0) [''Name  Id  Version'', ''Foo  foo.id  1.0''])) = [''foo.id'']"
    by code_simp
  with winget_outdated_list_rule [OF l n h t] show ?thesis by simp
qed

section \<open>monitor_usage: when a process is killed\<close>

lemma kill_selected_System:
  assumes "kill_selected plat procs idx = Inr evs" and "System c \<in> set evs"
  shows "idx \<noteq> [] \<and> list_all py_isdecimal idx \<and> 1 \<le> dec_value idx \<and> dec_value idx \<le> length procs
         \<and> c = (if plat = WindowsLike then ''taskkill /PID '' @ fst (procs ! (dec_value idx - 1)) @ '' /F''
                else ''kill -9 '' @ fst (procs ! (dec_value idx - 1)))"
proof -
  from assms have dig: "py_isdigit idx"
    by (auto simp: kill_selected_def split: if_splits)
  then have ne: "idx \<noteq> []" by (simp add: py_isdigit_def)
  from assms dig have dec: "list_all py_isdecimal idx" and len: "length idx \<le> int_max_str_digits"
    by (auto simp: kill_selected_def py_int_isdigit split: if_splits)
  then have int: "py_int idx = Inr (int (dec_value idx))" using dig by (simp add: py_int_isdigit)
  have nat: "nat (int (dec_value idx) - 1) = dec_value idx - 1" by simp
  from assms dig int have rng: "1 \<le> dec_value idx \<and> dec_value idx \<le> length procs"
    by (auto simp: kill_selected_def split: if_splits)
  with assms dig int have "evs = kill_process plat (fst (procs ! (dec_value idx - 1)))"
    by (simp add: kill_selected_def nat)
  with assms(2) have "c = (if plat = WindowsLike then ''taskkill /PID '' @ fst (procs ! (dec_value idx - 1)) @ '' /F''
                else ''kill -9 '' @ fst (procs ! (dec_value idx - 1)))"
    by (simp add: kill_process_def)
  with ne dec rng show ?thesis by simp
qed

text \<open>
  C9. A kill or taskkill command is run only when the choice is \<open>1\<close> or \<open>2\<close>, the
  list of that choice (CPU for \<open>1\<close>, memory for \<open>2\<close>) is not empty, and the index
  typed is a string of decimal digits, not empty, whose value lies in 1 .. length of
  that list; the command then names the pid at that position. For every other input
  no such command is in the trace.
\<close>

theorem kill_only_on_valid_choice:
  assumes "System c \<in> set (monitor_usage_choice plat cpu_list mem_list action idx)"
  shows "(let procs = (if action = ''1'' then cpu_list else mem_list)
          in (action = ''1'' \<or> action = ''2'') \<and> procs \<noteq> []
             \<and> idx \<noteq> [] \<and> list_all py_isdecimal idx
             \<and> 1 \<le> dec_value idx \<and> dec_value idx \<le> length procs
             \<and> c = (if plat = WindowsLike then ''taskkill /PID '' @ fst (procs ! (dec_value idx - 1)) @ '' /F''
                    else ''kill -9 '' @ fst (procs ! (dec_value idx - 1))))"
proof -
  consider (cpu) "action = ''1''" "cpu_list \<noteq> []"
    | (mem) "\<not> (action = ''1'' \<and> cpu_list \<noteq> [])" "action = ''2''" "mem_list \<noteq> []"
    | (none) "\<not> (action = ''1'' \<and> cpu_list \<noteq> [])" "\<not> (action = ''2'' \<and> mem_list \<noteq> [])"
    by blast
  then show ?thesis
  proof cases
    case cpu
    with assms obtain evs where "kill_selected plat cpu_list idx = Inr evs" "System c \<in> set evs"
      by (auto simp: monitor_usage_choice_def split: sum.splits)
    from kill_selected_System[OF this] cpu show ?thesis by (simp add: Let_def)
  next
    case mem
    then have a: "action \<noteq> ''1''" by auto
    with mem assms obtain evs where "kill_selected plat mem_list idx = Inr evs" "System c \<in> set evs"
      by (auto simp: monitor_usage_choice_def split: sum.splits)
    from kill_selected_System[OF this] mem a show ?thesis by (simp add: Let_def)
  next
    case none
    with assms show ?thesis by (auto simp: monitor_usage_choice_def)
  qed
qed

theorem kill_only_on_valid_choice_witness:
  "System ''kill -9 22'' \<in> set (monitor_usage_choice MacLike [(''1'', ''launchd''), (''22'', ''python'')] [] ''1'' ''2'')
   \<and> list_all py_isdecimal ''2'' \<and> 1 \<le> dec_value ''2''
   \<and> dec_value ''2'' \<le> length [(''1'', ''launchd''), (''22'', ''python'')]"
proof -
  have m: "System ''kill -9 22'' \<in> set (monitor_usage_choice MacLike [(''1'', ''launchd''), (''22'', ''python'')] [] ''1'' ''2'')"
    by code_simp
  from kill_only_on_valid_choice [OF m] m show ?thesis by (simp add: Let_def)
qed

end
